theory Spec2Isabelle
  imports Complex_Main "HOL-Library.AList"
begin

section \<open>JavaScript values, JSON and HTTP responses\<close>

text \<open>
  The payment routes build their responses and their cache entries as JavaScript object
  literals and read them back by property access. An object is an association list in
  literal order; a property that is absent reads as \<open>undefined\<close>, and
  \<open>JSON.stringify\<close> drops every property whose value is \<open>undefined\<close>.
  \<open>new Date().toISOString()\<close> is kept as the instant it denotes (\<open>JTime\<close>, in seconds).
  A number is a double and is kept by its exact value, a rational. The body of a
  request is parsed before a handler sees it, so the number a handler receives is the
  double nearest to the literal that was sent (the literal \<open>999999999999999999999\<close>
  arrives as \<open>10^21\<close>).
\<close>

datatype jval =
    JUndefined
  | JNull
  | JBool bool
  | JNum rat
  | JStr string
  | JTime nat
  | JArr "jval list"
  | JObj "(string \<times> jval) list"

type_synonym obj = "(string \<times> jval) list"





definition field :: "obj \<Rightarrow> string \<Rightarrow> jval" where
  "field ob k = (case map_of ob k of None \<Rightarrow> JUndefined | Some v \<Rightarrow> v)"

definition JSON_stringify :: "obj \<Rightarrow> obj" where
  "JSON_stringify ob = filter (\<lambda>kv. snd kv \<noteq> JUndefined) ob"

text \<open>Optional request fields: \<open>None\<close> is \<open>undefined\<close>.\<close>

definition jstr :: "string option \<Rightarrow> jval" where
  "jstr v = (case v of None \<Rightarrow> JUndefined | Some s \<Rightarrow> JStr s)"

text \<open>A value inside a template literal: \<open>`${v}`\<close>.\<close>

definition template :: "string option \<Rightarrow> string" where
  "template v = (case v of None \<Rightarrow> ''undefined'' | Some s \<Rightarrow> s)"

text \<open>Truthiness of a string property and of any value, as \<open>||\<close> and \<open>&&\<close> test it.\<close>

definition truthy_str :: "string option \<Rightarrow> bool" where
  "truthy_str v = (case v of None \<Rightarrow> False | Some s \<Rightarrow> s \<noteq> [])"

definition truthy :: "jval \<Rightarrow> bool" where
  "truthy v =
     (case v of
        JUndefined \<Rightarrow> False
      | JNull \<Rightarrow> False
      | JBool x \<Rightarrow> x
      | JNum r \<Rightarrow> r \<noteq> 0
      | JStr s \<Rightarrow> s \<noteq> []
      | _ \<Rightarrow> True)"

text \<open>\<open>a || d\<close> on a string property with a string default.\<close>

definition or_else :: "string option \<Rightarrow> string \<Rightarrow> string" where
  "or_else v d = (case v of None \<Rightarrow> d | Some s \<Rightarrow> if s \<noteq> [] then s else d)"

text \<open>
  A Stripe metadata object written as a literal of string properties: an \<open>undefined\<close>
  property is not sent.
\<close>

definition metadata_of :: "(string \<times> string option) list \<Rightarrow> (string \<times> string) list" where
  "metadata_of kvs = List.map_filter (\<lambda>kv. map_option (Pair (fst kv)) (snd kv)) kvs"

record response =
  status_code :: nat
  body :: obj

text \<open>\<open>res.status(c).json(o)\<close>; \<open>res.json(o)\<close> is the same with status 200.\<close>

definition json :: "nat \<Rightarrow> obj \<Rightarrow> response" where
  "json c ob = \<lparr>status_code = c, body = JSON_stringify ob\<rparr>"

section \<open>The payment collaborator (Stripe)\<close>

text \<open>
  Stripe is an external service. The handlers are parametric in it: a \<open>stripe_api\<close> gives,
  for each call the routes make, the outcome (the call throws, or it returns a value) and
  the collaborator's next state. \<open>paymentIntents.retrieve\<close> is a read and leaves the
  collaborator's state as it is.
\<close>

datatype 'a outcome = Threw | Returned 'a

record payment_intent =
  pi_id :: string
  client_secret :: string
  pi_status :: string
  pi_amount :: int
  pi_currency :: string
  created :: nat
  metadata :: "(string \<times> string) list"

record create_params =
  cp_amount :: jval
  cp_currency :: "string option"
  cp_payment_method_types :: "string list"
  cp_metadata :: "(string \<times> string) list"
  cp_description :: string
  cp_payment_method :: "string option"

record refund_params =
  rp_payment_intent :: "string option"
  rp_amount :: jval
  rp_reason :: "string option"

record refund_obj =
  rf_id :: string
  rf_amount :: int
  rf_currency :: string
  rf_status :: string
  rf_reason :: "string option"

record 's stripe_api =
  paymentIntents_create :: "create_params \<Rightarrow> 's \<Rightarrow> payment_intent outcome \<times> 's"
  paymentIntents_retrieve :: "string option \<Rightarrow> 's \<Rightarrow> payment_intent option outcome"
  paymentIntents_confirm :: "string option \<Rightarrow> 's \<Rightarrow> payment_intent outcome \<times> 's"
  refunds_create :: "refund_params \<Rightarrow> 's \<Rightarrow> refund_obj outcome \<times> 's"

text \<open>
  Every call that asks the collaborator to change something is appended to \<open>calls\<close>, so
  that "no authorization was created" and "no confirm was issued" can be read off the
  world after the handler has run.
\<close>

datatype stripe_call =
    CreateIntent create_params
  | ConfirmIntent "string option"
  | CreateRefund refund_params

section \<open>The Redis cache and the world a handler runs in\<close>

text \<open>
  \<open>global.redisClient\<close>: a key holds the object whose JSON text was stored and the
  instant (in seconds) at which the entry expires. \<open>setEx key ttl value\<close> at time \<open>now\<close>
  expires at \<open>now + ttl\<close>; \<open>get\<close> returns \<open>null\<close> (\<open>None\<close>) for a missing or expired key.
  The connection is taken to be up: \<open>get\<close> and \<open>setEx\<close> do not reject.
\<close>

record 's world =
  redis :: "string \<rightharpoonup> (obj \<times> nat)"
  stripe :: 's
  calls :: "stripe_call list"

definition redis_get :: "nat \<Rightarrow> string \<Rightarrow> 's world \<Rightarrow> obj option" where
  "redis_get now k w =
     (case redis w k of
        None \<Rightarrow> None
      | Some (v, expires) \<Rightarrow> if now < expires then Some v else None)"

definition redis_setEx :: "nat \<Rightarrow> string \<Rightarrow> nat \<Rightarrow> obj \<Rightarrow> 's world \<Rightarrow> 's world" where
  "redis_setEx now k ttl v w = w\<lparr>redis := (redis w)(k \<mapsto> (JSON_stringify v, now + ttl))\<rparr>"

definition stripe_create ::
  "'s stripe_api \<Rightarrow> create_params \<Rightarrow> 's world \<Rightarrow> payment_intent outcome \<times> 's world" where
  "stripe_create api p w =
     (case paymentIntents_create api p (stripe w) of
        (r, s') \<Rightarrow> (r, w\<lparr>stripe := s', calls := calls w @ [CreateIntent p]\<rparr>))"

definition stripe_confirm ::
  "'s stripe_api \<Rightarrow> string option \<Rightarrow> 's world \<Rightarrow> payment_intent outcome \<times> 's world" where
  "stripe_confirm api i w =
     (case paymentIntents_confirm api i (stripe w) of
        (r, s') \<Rightarrow> (r, w\<lparr>stripe := s', calls := calls w @ [ConfirmIntent i]\<rparr>))"

definition stripe_refund ::
  "'s stripe_api \<Rightarrow> refund_params \<Rightarrow> 's world \<Rightarrow> refund_obj outcome \<times> 's world" where
  "stripe_refund api p w =
     (case refunds_create api p (stripe w) of
        (r, s') \<Rightarrow> (r, w\<lparr>stripe := s', calls := calls w @ [CreateRefund p]\<rparr>))"

section \<open>Request validation (express-validator chains)\<close>

text \<open>
  The Swagger schemas of the routes are documentation: no middleware enforces them, and
  a handler receives whatever the JSON body parser made of the request. The \<open>amount\<close>
  of a request is therefore any value: absent (\<open>JUndefined\<close>), \<open>null\<close>, a boolean, a
  number, a string, an array or an object. The properties that the schemas declare as
  strings are kept as strings, each possibly absent.
\<close>

record payment_intent_request =
  amount :: jval
  currency :: "string option"
  orderId :: "string option"
  paymentMethodId :: "string option"
  description :: "string option"

record refund_request =
  rq_paymentIntentId :: "string option"
  rq_amount :: jval
  rq_reason :: "string option"

subsection \<open>The text of a value\<close>

text \<open>
  JavaScript prints a number whose value is an integer of magnitude below \<open>10^21\<close> as
  a run of decimal digits, with a minus sign when it is negative. Up to \<open>2^53\<close> the
  digits are those of the value. Above, JavaScript prints the shortest digits that
  still denote the same double and pads them with zeroes (\<open>2^60\<close> is printed as
  \<open>1152921504606847000\<close>); \<open>decimal\<close> gives the digits of the exact value, which denote
  the same double, so that a validator that reads the number back cannot tell the two
  texts apart.
\<close>

fun digits :: "nat \<Rightarrow> string" where
  "digits n = (if n < 10 then [char_of (48 + n)]
               else digits (n div 10) @ [char_of (48 + n mod 10)])"

declare digits.simps [simp del]

definition decimal :: "int \<Rightarrow> string" where
  "decimal n = (if n < 0 then CHR ''-'' # digits (nat (- n)) else digits (nat n))"

text \<open>
  A standard validator is a function of validator.js on text, and the chain hands it
  the text of the value: the empty text for an absent or \<open>null\<close> value, the string
  itself, \<open>true\<close> or \<open>false\<close>, and for an array its elements' texts joined by commas.
  From \<open>10^21\<close> on a number is printed with an exponent (\<open>1e+21\<close>), and a number with
  a fractional part is printed with a decimal point or an exponent. \<open>None\<close> stands for
  such a text, and for any other that holds a character which is neither a sign nor a
  digit: the commas of a longer array, a timestamp, the \<open>[object Object]\<close> of an
  object. No more of such a text is needed here.
\<close>

fun toString :: "jval \<Rightarrow> string option" where
  "toString JUndefined = Some []"
| "toString JNull = Some []"
| "toString (JBool x) = Some (if x then ''true'' else ''false'')"
| "toString (JNum r) =
     (if of_int \<lfloor>r\<rfloor> = r \<and> \<bar>r\<bar> < 10 ^ 21 then Some (decimal \<lfloor>r\<rfloor>) else None)"
| "toString (JStr s) = Some s"
| "toString (JTime t) = None"
| "toString (JArr []) = Some []"
| "toString (JArr [v]) = toString v"
| "toString (JArr (v # v' # vs)) = None"
| "toString (JObj ob) = None"

subsection \<open>The validators\<close>

text \<open>
  \<open>isInt(str, {min: m})\<close> of validator.js: the text matches \<open>/^[-+]?[0-9]+$/\<close> (leading
  zeroes are allowed unless an option forbids them) and \<open>str >= m\<close> holds, which
  JavaScript decides on the number that the text denotes. \<open>to_number\<close> is that number
  for a text that matches; rounding a long run of digits to a double is monotone and
  does not change the comparison with a bound such as 50 or 1.
\<close>

definition is_digit :: "char \<Rightarrow> bool" where
  "is_digit c = (48 \<le> (of_char c :: nat) \<and> (of_char c :: nat) \<le> 57)"

definition digits_value :: "string \<Rightarrow> nat" where
  "digits_value s = foldl (\<lambda>a c. 10 * a + ((of_char c :: nat) - 48)) 0 s"

definition int_text :: "string \<Rightarrow> bool" where
  "int_text s =
     (case s of
        [] \<Rightarrow> False
      | c # cs \<Rightarrow>
          if c = CHR ''-'' \<or> c = CHR ''+'' then cs \<noteq> [] \<and> list_all is_digit cs
          else list_all is_digit (c # cs))"

definition to_number :: "string \<Rightarrow> int" where
  "to_number s =
     (case s of
        [] \<Rightarrow> 0
      | c # cs \<Rightarrow>
          if c = CHR ''-'' then - int (digits_value cs)
          else if c = CHR ''+'' then int (digits_value cs)
          else int (digits_value (c # cs)))"

definition isInt :: "int \<Rightarrow> string \<Rightarrow> bool" where
  "isInt m str = (int_text str \<and> m \<le> to_number str)"

text \<open>\<open>isInt({min: m})\<close> on one value: the validator on the text of the value.\<close>

definition isInt_min :: "int \<Rightarrow> jval \<Rightarrow> bool" where
  "isInt_min m v = (case toString v of None \<Rightarrow> False | Some str \<Rightarrow> isInt m str)"

text \<open>
  On a property typed as a string: \<open>isIn(vs)\<close> holds when it is present and one of
  \<open>vs\<close>, \<open>notEmpty()\<close> when it is present and not the empty string; \<open>optional()\<close> skips
  the check of an absent property.
\<close>

definition isIn :: "string list \<Rightarrow> string option \<Rightarrow> bool" where
  "isIn vs v = (case v of None \<Rightarrow> False | Some s \<Rightarrow> s \<in> set vs)"

definition notEmpty :: "string option \<Rightarrow> bool" where
  "notEmpty v = (case v of None \<Rightarrow> False | Some s \<Rightarrow> s \<noteq> [])"

definition optional :: "('a option \<Rightarrow> bool) \<Rightarrow> 'a option \<Rightarrow> bool" where
  "optional chk v = (case v of None \<Rightarrow> True | Some _ \<Rightarrow> chk v)"

subsection \<open>The chains\<close>

text \<open>
  \<open>validationResult(req).array()\<close> is kept as the list of the messages, in chain order.
  A chain on a value that may be an array runs its validator on each element of the
  array, and on the value itself when it is no array, and records one error for each
  failure; so an empty array records none. (This is what current releases of
  express-validator do; earlier releases looked at the first element only.)
  \<open>optional()\<close> skips an absent value, and only that.
\<close>

definition withMessage :: "bool \<Rightarrow> string \<Rightarrow> string list" where
  "withMessage ok msg = (if ok then [] else [msg])"

definition values_of :: "jval \<Rightarrow> jval list" where
  "values_of v = (case v of JArr vs \<Rightarrow> vs | _ \<Rightarrow> [v])"

definition standard_validation :: "(jval \<Rightarrow> bool) \<Rightarrow> string \<Rightarrow> jval \<Rightarrow> string list" where
  "standard_validation validator msg v =
     concat (map (\<lambda>x. withMessage (validator x) msg) (values_of v))"

definition optional_validation :: "(jval \<Rightarrow> bool) \<Rightarrow> string \<Rightarrow> jval \<Rightarrow> string list" where
  "optional_validation validator msg v =
     (if v = JUndefined then [] else standard_validation validator msg v)"

definition errors_array :: "string list \<Rightarrow> jval" where
  "errors_array errs = JArr (map (\<lambda>m. JObj [(''msg'', JStr m)]) errs)"

definition create_validators :: "payment_intent_request \<Rightarrow> string list" where
  "create_validators b =
     standard_validation (isInt_min 50) ''Amount must be at least 50 cents'' (amount b)
   @ withMessage (isIn [''usd'', ''eur'', ''gbp''] (currency b)) ''Currency must be usd, eur, or gbp''
   @ withMessage (notEmpty (orderId b)) ''Order ID is required''"

definition confirm_validators :: "string option \<Rightarrow> string list" where
  "confirm_validators paymentIntentId =
     withMessage (notEmpty paymentIntentId) ''Payment intent ID is required''"

definition refund_validators :: "refund_request \<Rightarrow> string list" where
  "refund_validators b =
     withMessage (notEmpty (rq_paymentIntentId b)) ''Payment intent ID is required''
   @ optional_validation (isInt_min 1) ''Amount must be positive'' (rq_amount b)
   @ withMessage (optional (isIn [''duplicate'', ''fraudulent'', ''requested_by_customer''])
        (rq_reason b)) ''Invalid refund reason''"

section \<open>The payment routes\<close>

text \<open>
  Each handler takes the collaborator, the clock reading \<open>now\<close>, the \<open>userId\<close> that the
  \<open>auth\<close> middleware put into \<open>req.user\<close> (a string, so \<open>userId.toString()\<close> is
  \<open>userId\<close>), the request and the world, and returns the response and the world it
  leaves. The \<open>catch\<close> block of a handler answers 500.
\<close>

subsection \<open>POST /create-payment-intent\<close>

definition payment_intent_key :: "string option \<Rightarrow> string" where
  "payment_intent_key oid = ''payment_intent:'' @ template oid"

definition create_payment_intent ::
  "'s stripe_api \<Rightarrow> nat \<Rightarrow> string \<Rightarrow> payment_intent_request \<Rightarrow> 's world
     \<Rightarrow> response \<times> 's world" where
  "create_payment_intent api now userId b w =
     (let errors = create_validators b in
      if errors \<noteq> [] then (json 400 [(''errors'', errors_array errors)], w)
      else
        (case redis_get now (payment_intent_key (orderId b)) w of
           Some paymentData \<Rightarrow>
             (json 200
                [(''success'', JBool True),
                 (''paymentIntentId'', field paymentData ''paymentIntentId''),
                 (''clientSecret'', field paymentData ''clientSecret''),
                 (''status'', field paymentData ''status'')], w)
         | None \<Rightarrow>
             (case stripe_create api
                \<lparr>cp_amount = amount b,
                 cp_currency = currency b,
                 cp_payment_method_types = [''card''],
                 cp_metadata = metadata_of [(''orderId'', orderId b), (''userId'', Some userId)],
                 cp_description =
                   or_else (description b) (''Payment for order '' @ template (orderId b)),
                 cp_payment_method =
                   (if truthy_str (paymentMethodId b) then paymentMethodId b else None)\<rparr> w of
                (Threw, w1) \<Rightarrow>
                  (json 500 [(''error'', JStr ''Failed to create payment intent'')], w1)
              | (Returned paymentIntent, w1) \<Rightarrow>
                  (let paymentData =
                     [(''paymentIntentId'', JStr (pi_id paymentIntent)),
                      (''clientSecret'', JStr (client_secret paymentIntent)),
                      (''status'', JStr (pi_status paymentIntent)),
                      (''amount'', amount b),
                      (''currency'', jstr (currency b)),
                      (''orderId'', jstr (orderId b)),
                      (''userId'', JStr userId),
                      (''createdAt'', JTime now)];
                     w2 = redis_setEx now (payment_intent_key (orderId b)) 3600 paymentData w1
                   in (json 200
                         [(''success'', JBool True),
                          (''paymentIntentId'', JStr (pi_id paymentIntent)),
                          (''clientSecret'', JStr (client_secret paymentIntent)),
                          (''status'', JStr (pi_status paymentIntent))], w2)))))"

subsection \<open>POST /confirm-payment\<close>

definition payment_key :: "string \<Rightarrow> string" where
  "payment_key pid = ''payment:'' @ pid"

definition confirm_payment ::
  "'s stripe_api \<Rightarrow> nat \<Rightarrow> string \<Rightarrow> string option \<Rightarrow> 's world \<Rightarrow> response \<times> 's world" where
  "confirm_payment api now userId paymentIntentId w =
     (let errors = confirm_validators paymentIntentId in
      if errors \<noteq> [] then (json 400 [(''errors'', errors_array errors)], w)
      else
        (case paymentIntents_retrieve api paymentIntentId (stripe w) of
           Threw \<Rightarrow> (json 500 [(''error'', JStr ''Failed to confirm payment'')], w)
         | Returned None \<Rightarrow> (json 404 [(''error'', JStr ''Payment intent not found'')], w)
         | Returned (Some paymentIntent) \<Rightarrow>
             if map_of (metadata paymentIntent) ''userId'' \<noteq> Some userId
             then (json 403 [(''error'', JStr ''Access denied'')], w)
             else if pi_status paymentIntent = ''succeeded''
             then (json 200
                     [(''success'', JBool True),
                      (''message'', JStr ''Payment already confirmed''),
                      (''status'', JStr (pi_status paymentIntent))], w)
             else
               (case stripe_confirm api paymentIntentId w of
                  (Threw, w1) \<Rightarrow> (json 500 [(''error'', JStr ''Failed to confirm payment'')], w1)
                | (Returned confirmedPayment, w1) \<Rightarrow>
                    (let w3 =
                       (if pi_status confirmedPayment = ''succeeded'' then
                          (let oid = map_of (metadata confirmedPayment) ''orderId'';
                               w2 =
                                 (case redis_get now (payment_intent_key oid) w1 of
                                    Some paymentData \<Rightarrow>
                                      redis_setEx now (payment_intent_key oid) 3600
                                        (AList.update ''confirmedAt'' (JTime now)
                                           (AList.update ''status''
                                              (JStr (pi_status confirmedPayment)) paymentData))
                                        w1
                                  | None \<Rightarrow> w1)
                           in redis_setEx now (payment_key (pi_id confirmedPayment)) 86400
                                [(''paymentIntentId'', JStr (pi_id confirmedPayment)),
                                 (''orderId'', jstr oid),
                                 (''userId'', JStr userId),
                                 (''amount'', JNum (of_int (pi_amount confirmedPayment))),
                                 (''currency'', JStr (pi_currency confirmedPayment)),
                                 (''status'', JStr (pi_status confirmedPayment)),
                                 (''confirmedAt'', JTime now)] w2)
                        else w1)
                     in (json 200
                           [(''success'', JBool True),
                            (''status'', JStr (pi_status confirmedPayment)),
                            (''message'',
                               JStr (if pi_status confirmedPayment = ''succeeded''
                                     then ''Payment confirmed successfully''
                                     else ''Payment processing''))], w3)))))"

subsection \<open>GET /payment-status/:paymentIntentId\<close>

text \<open>
  The part of the handler after the cache check: it is reached when the cache has no
  entry, and when the entry belongs to another user.
\<close>

definition payment_status_from_stripe ::
  "'s stripe_api \<Rightarrow> string \<Rightarrow> string \<Rightarrow> 's world \<Rightarrow> response \<times> 's world" where
  "payment_status_from_stripe api userId paymentIntentId w =
     (case paymentIntents_retrieve api (Some paymentIntentId) (stripe w) of
        Threw \<Rightarrow> (json 500 [(''error'', JStr ''Failed to get payment status'')], w)
      | Returned None \<Rightarrow> (json 404 [(''error'', JStr ''Payment not found'')], w)
      | Returned (Some paymentIntent) \<Rightarrow>
          if map_of (metadata paymentIntent) ''userId'' \<noteq> Some userId
          then (json 403 [(''error'', JStr ''Access denied'')], w)
          else (json 200
                  [(''success'', JBool True),
                   (''payment'', JObj (JSON_stringify
                      [(''paymentIntentId'', JStr (pi_id paymentIntent)),
                       (''orderId'', jstr (map_of (metadata paymentIntent) ''orderId'')),
                       (''userId'', JStr userId),
                       (''amount'', JNum (of_int (pi_amount paymentIntent))),
                       (''currency'', JStr (pi_currency paymentIntent)),
                       (''status'', JStr (pi_status paymentIntent)),
                       (''created'', JTime (created paymentIntent))]))], w))"

definition payment_status ::
  "'s stripe_api \<Rightarrow> nat \<Rightarrow> string \<Rightarrow> string \<Rightarrow> 's world \<Rightarrow> response \<times> 's world" where
  "payment_status api now userId paymentIntentId w =
     (case redis_get now (payment_key paymentIntentId) w of
        Some paymentData \<Rightarrow>
          if field paymentData ''userId'' = JStr userId
          then (json 200 [(''success'', JBool True), (''payment'', JObj paymentData)], w)
          else payment_status_from_stripe api userId paymentIntentId w
      | None \<Rightarrow> payment_status_from_stripe api userId paymentIntentId w)"

subsection \<open>POST /refund\<close>

definition refund_key :: "string \<Rightarrow> string" where
  "refund_key rid = ''refund:'' @ rid"

definition refund ::
  "'s stripe_api \<Rightarrow> nat \<Rightarrow> string \<Rightarrow> refund_request \<Rightarrow> 's world \<Rightarrow> response \<times> 's world" where
  "refund api now userId b w =
     (let errors = refund_validators b in
      if errors \<noteq> [] then (json 400 [(''errors'', errors_array errors)], w)
      else
        (case paymentIntents_retrieve api (rq_paymentIntentId b) (stripe w) of
           Threw \<Rightarrow> (json 500 [(''error'', JStr ''Failed to process refund'')], w)
         | Returned None \<Rightarrow> (json 404 [(''error'', JStr ''Payment not found'')], w)
         | Returned (Some paymentIntent) \<Rightarrow>
             if map_of (metadata paymentIntent) ''userId'' \<noteq> Some userId
             then (json 403 [(''error'', JStr ''Access denied'')], w)
             else if pi_status paymentIntent \<noteq> ''succeeded''
             then (json 400 [(''error'', JStr ''Payment is not eligible for refund'')], w)
             else
               (case stripe_refund api
                  \<lparr>rp_payment_intent = rq_paymentIntentId b,
                   rp_amount = (if truthy (rq_amount b) then rq_amount b else JUndefined),
                   rp_reason = (if truthy_str (rq_reason b) then rq_reason b else None)\<rparr> w of
                  (Threw, w1) \<Rightarrow> (json 500 [(''error'', JStr ''Failed to process refund'')], w1)
                | (Returned rf, w1) \<Rightarrow>
                    (let w2 = redis_setEx now (refund_key (rf_id rf)) 86400
                                [(''refundId'', JStr (rf_id rf)),
                                 (''paymentIntentId'', jstr (rq_paymentIntentId b)),
                                 (''orderId'', jstr (map_of (metadata paymentIntent) ''orderId'')),
                                 (''userId'', JStr userId),
                                 (''amount'', JNum (of_int (rf_amount rf))),
                                 (''currency'', JStr (rf_currency rf)),
                                 (''status'', JStr (rf_status rf)),
                                 (''reason'',
                                    (case rf_reason rf of None \<Rightarrow> JNull | Some r \<Rightarrow> JStr r)),
                                 (''createdAt'', JTime now)] w1
                     in (json 200
                           [(''success'', JBool True),
                            (''refundId'', JStr (rf_id rf)),
                            (''status'', JStr (rf_status rf)),
                            (''message'', JStr ''Refund processed successfully'')], w2)))))"

subsection \<open>Client retries of confirm-payment\<close>

text \<open>
  A client that retries \<open>POST /confirm-payment\<close> with the same body, once at each of the
  given instants: the responses in order, and the world after the last one.
\<close>

fun confirm_retries ::
  "'s stripe_api \<Rightarrow> string \<Rightarrow> string option \<Rightarrow> nat list \<Rightarrow> 's world
     \<Rightarrow> response list \<times> 's world" where
  "confirm_retries api userId paymentIntentId [] w = ([], w)"
| "confirm_retries api userId paymentIntentId (t # ts) w =
     (case confirm_payment api t userId paymentIntentId w of
        (r, w1) \<Rightarrow>
          (case confirm_retries api userId paymentIntentId ts w1 of
             (rs, w2) \<Rightarrow> (r # rs, w2)))"

section \<open>An in-memory collaborator for concrete runs\<close>

text \<open>
  A stand-in for Stripe on which the handlers can be evaluated: its state is the list of
  the payment intents created so far. It takes an amount that is a number; the n-th
  intent gets the id \<open>pi_\<close> followed by n strokes; confirming an intent makes it
  \<open>succeeded\<close>, and is refused for a canceled intent; a refund needs a succeeded
  intent.
\<close>

definition demo_create :: "create_params \<Rightarrow> payment_intent list \<Rightarrow> payment_intent outcome \<times> payment_intent list" where
  "demo_create p s =
     (case (cp_amount p, cp_currency p) of
        (JNum a, Some c) \<Rightarrow>
          (let paymentIntent =
             \<lparr>pi_id = ''pi_'' @ replicate (Suc (length s)) (CHR ''i''),
              client_secret = ''pi_'' @ replicate (Suc (length s)) (CHR ''i'') @ ''_secret'',
              pi_status = ''requires_confirmation'',
              pi_amount = \<lfloor>a\<rfloor>,
              pi_currency = c,
              created = 0,
              metadata = cp_metadata p\<rparr>
           in (Returned paymentIntent, s @ [paymentIntent]))
      | _ \<Rightarrow> (Threw, s))"

definition demo_retrieve :: "string option \<Rightarrow> payment_intent list \<Rightarrow> payment_intent option outcome" where
  "demo_retrieve i s = Returned (find (\<lambda>q. Some (pi_id q) = i) s)"

definition demo_confirm :: "string option \<Rightarrow> payment_intent list \<Rightarrow> payment_intent outcome \<times> payment_intent list" where
  "demo_confirm i s =
     (case find (\<lambda>q. Some (pi_id q) = i) s of
        None \<Rightarrow> (Threw, s)
      | Some q \<Rightarrow>
          if pi_status q = ''canceled'' then (Threw, s)
          else
            (Returned (q\<lparr>pi_status := ''succeeded''\<rparr>),
             map (\<lambda>r. if pi_id r = pi_id q then r\<lparr>pi_status := ''succeeded''\<rparr> else r) s))"

definition demo_refund :: "refund_params \<Rightarrow> payment_intent list \<Rightarrow> refund_obj outcome \<times> payment_intent list" where
  "demo_refund p s =
     (case find (\<lambda>q. Some (pi_id q) = rp_payment_intent p) s of
        None \<Rightarrow> (Threw, s)
      | Some q \<Rightarrow>
          if pi_status q \<noteq> ''succeeded'' then (Threw, s)
          else (Returned
                  \<lparr>rf_id = ''re_'' @ pi_id q,
                   rf_amount = (case rp_amount p of JNum a \<Rightarrow> \<lfloor>a\<rfloor> | _ \<Rightarrow> pi_amount q),
                   rf_currency = pi_currency q,
                   rf_status = ''succeeded'',
                   rf_reason = rp_reason p\<rparr>, s))"

definition demo_stripe :: "payment_intent list stripe_api" where
  "demo_stripe =
     \<lparr>paymentIntents_create = demo_create,
      paymentIntents_retrieve = demo_retrieve,
      paymentIntents_confirm = demo_confirm,
      refunds_create = demo_refund\<rparr>"

definition empty_world :: "payment_intent list world" where
  "empty_world = \<lparr>redis = Map.empty, stripe = [], calls = []\<rparr>"

definition order_request :: payment_intent_request where
  "order_request =
     \<lparr>amount = JNum 99999, currency = Some ''usd'', orderId = Some ''order-1'',
      paymentMethodId = Some ''pm_card'', description = None\<rparr>"

text \<open>
  The world after user \<open>u1\<close> has created the payment intent of \<open>order-1\<close> at second
  1000, and the world after the same user has confirmed it ten seconds later.
\<close>

definition created_world :: "payment_intent list world" where
  "created_world =
     snd (create_payment_intent demo_stripe 1000 ''u1'' order_request empty_world)"

definition confirmed_world :: "payment_intent list world" where
  "confirmed_world =
     snd (confirm_payment demo_stripe 1010 ''u1'' (Some ''pi_i'') created_world)"


definition refund_request_all :: refund_request where
  "refund_request_all =
     \<lparr>rq_paymentIntentId = Some ''pi_i'', rq_amount = JUndefined, rq_reason = None\<rparr>"

section \<open>The order state machine\<close>

text \<open>
  Modelled from the spec: the order statuses of section 4.1. The order service's state
  handling is not among the sources.
\<close>

datatype order_status =
    CREATED | RESERVED | AUTHORIZING | AUTHORIZED | COMPLETED
  | CANCELLING | CANCELLED | FAILED

text \<open>
  Modelled from the spec: the events that drive an order. The spec draws the arrows and
  names no events, so there is one event for each kind of arrow.
\<close>

datatype order_event =
    Reserve | Authorize | Authorized | Complete | Cancel | Cancelled | Fail


text \<open>
  Modelled from the spec: the transition table of section 4.1,
  \<open>CREATED \<rightarrow> RESERVED \<rightarrow> AUTHORIZING \<rightarrow> AUTHORIZED \<rightarrow> COMPLETED\<close>,
  \<open>RESERVED|AUTHORIZING \<rightarrow> CANCELLING \<rightarrow> CANCELLED\<close> and \<open>AUTHORIZING \<rightarrow> FAILED\<close>;
  every other pair is illegal.
\<close>

fun next_status :: "order_status \<Rightarrow> order_event \<Rightarrow> order_status option" where
  "next_status CREATED Reserve = Some RESERVED"
| "next_status RESERVED Authorize = Some AUTHORIZING"
| "next_status RESERVED Cancel = Some CANCELLING"
| "next_status AUTHORIZING Authorized = Some AUTHORIZED"
| "next_status AUTHORIZING Cancel = Some CANCELLING"
| "next_status AUTHORIZING Fail = Some FAILED"
| "next_status AUTHORIZED Complete = Some COMPLETED"
| "next_status CANCELLING Cancelled = Some CANCELLED"
| "next_status _ _ = None"

text \<open>
  Modelled from the spec: the Order of section 3 (line items as product reference,
  quantity and unit price; the address snapshots as opaque text).
\<close>

record order =
  order_id :: string
  owner :: string
  line_items :: "(string \<times> nat \<times> int) list"
  total :: int
  shipping_address :: string
  billing_address :: string
  status :: order_status
  version :: nat

text \<open>Modelled from the spec: the domain event a successful transition returns.\<close>

record domain_event =
  ev_order :: string
  ev_from :: order_status
  ev_to :: order_status
  ev_version :: nat

text \<open>
  Modelled from the spec: the errors of \<open>transition\<close>. The spec does not say what an
  unknown \<open>orderId\<close> yields; it is kept apart as \<open>UnknownOrderError\<close>.
\<close>

datatype transition_error = ConflictError | IllegalTransitionError | UnknownOrderError

text \<open>
  Modelled from the spec: \<open>transition(orderId, event, expectedVersion)\<close> of section 4.1,
  with the checks in the order in which the contract lists them: the version check
  (lost-update protection), then the transition table, then the persisted update with
  the version incremented. A failed call leaves the store as it was.
\<close>

definition transition ::
  "(string \<rightharpoonup> order) \<Rightarrow> string \<Rightarrow> order_event \<Rightarrow> nat
     \<Rightarrow> (transition_error + order \<times> domain_event) \<times> (string \<rightharpoonup> order)" where
  "transition db oid event expectedVersion =
     (case db oid of
        None \<Rightarrow> (Inl UnknownOrderError, db)
      | Some ord \<Rightarrow>
          if version ord \<noteq> expectedVersion then (Inl ConflictError, db)
          else
            (case next_status (status ord) event of
               None \<Rightarrow> (Inl IllegalTransitionError, db)
             | Some st \<Rightarrow>
                 (let ord' = ord\<lparr>status := st, version := version ord + 1\<rparr>
                  in (Inr (ord',
                        \<lparr>ev_order = oid, ev_from = status ord, ev_to = st,
                         ev_version = version ord'\<rparr>),
                      db(oid \<mapsto> ord')))))"

section \<open>Webhook ingress\<close>

text \<open>
  Modelled from the spec: the vocabulary of the payment collaborator (section 6), which
  is also the event type of a webhook. The route module \<open>webhookRoutes\<close> is mounted by
  the payment service and is not among the sources.
\<close>

datatype payment_result = authorized | declined | pending

text \<open>Modelled from the spec: the PaymentAttempt of section 3.\<close>

record payment_attempt =
  attempt_id :: string
  attempt_order :: string
  idempotency_key :: string
  attempt_amount :: int
  attempt_currency :: string
  external_reference :: "string option"
  attempt_status :: payment_result
  retry_count :: nat

text \<open>Modelled from the spec: an attempt that is authorized or declined is terminal.\<close>

definition attempt_terminal :: "payment_result \<Rightarrow> bool" where
  "attempt_terminal r = (r = authorized \<or> r = declined)"

text \<open>
  Modelled from the spec: the state the webhook ingress works on: the orders, the
  payment attempts and the idempotency ledger (key to recorded result; the retention
  window is not modelled, a record stays).
\<close>

record ingress_state =
  orders :: "string \<rightharpoonup> order"
  attempts :: "payment_attempt list"
  ledger :: "string \<rightharpoonup> payment_result"

text \<open>Modelled from the spec: what a delivery does, as reported to the caller.\<close>

datatype webhook_outcome =
    UnknownAttemptError
  | AlreadyApplied
  | AttemptTerminal
  | Applied
  | Rejected transition_error

text \<open>
  Modelled from the spec: the transitions an event type maps to, identical to the
  synchronous path of section 4.2: \<open>authorized\<close> moves the order to \<open>AUTHORIZED\<close> and then
  to \<open>COMPLETED\<close>, \<open>declined\<close> moves it to \<open>FAILED\<close>, \<open>pending\<close> leaves it in place.
\<close>

definition events_of :: "payment_result \<Rightarrow> order_event list" where
  "events_of r =
     (case r of authorized \<Rightarrow> [Authorized, Complete] | declined \<Rightarrow> [Fail] | pending \<Rightarrow> [])"

text \<open>
  Modelled from the spec: the events applied one after the other, each against the
  version the order has at that moment; the first failure stops the run and nothing
  is persisted.
\<close>

fun apply_events ::
  "(string \<rightharpoonup> order) \<Rightarrow> string \<Rightarrow> order_event list
     \<Rightarrow> transition_error + (string \<rightharpoonup> order)" where
  "apply_events db oid [] = Inr db"
| "apply_events db oid (e # es) =
     (case db oid of
        None \<Rightarrow> Inl UnknownOrderError
      | Some ord \<Rightarrow>
          (case transition db oid e (version ord) of
             (Inl err, _) \<Rightarrow> Inl err
           | (Inr _, db') \<Rightarrow> apply_events db' oid es))"

text \<open>
  Modelled from the spec: \<open>handleEvent(externalReference, eventType, payload, eventId)\<close>
  of section 4.3: the attempt is looked up by its external reference
  (\<open>UnknownAttemptError\<close> and no change when there is none); an \<open>eventId\<close> already in the
  ledger is a no-op; an attempt already terminal is a no-op; otherwise the event's
  transitions are applied, the attempt takes the event's status and the \<open>eventId\<close> is
  recorded in the ledger.
\<close>

definition handleEvent ::
  "ingress_state \<Rightarrow> string \<Rightarrow> payment_result \<Rightarrow> string \<Rightarrow> string
     \<Rightarrow> webhook_outcome \<times> ingress_state" where
  "handleEvent st externalReference eventType payload eventId =
     (case find (\<lambda>a. external_reference a = Some externalReference) (attempts st) of
        None \<Rightarrow> (UnknownAttemptError, st)
      | Some a \<Rightarrow>
          if ledger st eventId \<noteq> None then (AlreadyApplied, st)
          else if attempt_terminal (attempt_status a) then (AttemptTerminal, st)
          else
            (case apply_events (orders st) (attempt_order a) (events_of eventType) of
               Inl err \<Rightarrow> (Rejected err, st)
             | Inr db' \<Rightarrow>
                 (Applied,
                  st\<lparr>orders := db',
                     attempts :=
                       map (\<lambda>b. if attempt_id b = attempt_id a
                                 then b\<lparr>attempt_status := eventType\<rparr> else b) (attempts st),
                     ledger := (ledger st)(eventId \<mapsto> eventType)\<rparr>)))"

text \<open>
  Modelled from the spec: a run of deliveries (external reference, event type, payload,
  event id), in the order in which they arrive.
\<close>

fun deliver_all ::
  "ingress_state \<Rightarrow> (string \<times> payment_result \<times> string \<times> string) list \<Rightarrow> ingress_state" where
  "deliver_all st [] = st"
| "deliver_all st ((r, t, p, e) # ds) = deliver_all (snd (handleEvent st r t p e)) ds"

section \<open>Concrete orders and deliveries\<close>

text \<open>
  An order that is being authorized, the store and the webhook state that hold it, and
  the same order once completed; used to run the spec-modelled operations.
\<close>

definition demo_order :: order where
  "demo_order =
     \<lparr>order_id = ''order-1'', owner = ''u1'',
      line_items = [(''sku-1'', 1, 99999)], total = 99999,
      shipping_address = ''1 Main St'', billing_address = ''1 Main St'',
      status = AUTHORIZING, version = 2\<rparr>"

definition demo_orders :: "string \<rightharpoonup> order" where
  "demo_orders = [''order-1'' \<mapsto> demo_order]"


definition demo_attempt :: payment_attempt where
  "demo_attempt =
     \<lparr>attempt_id = ''att-1'', attempt_order = ''order-1'', idempotency_key = ''K1'',
      attempt_amount = 99999, attempt_currency = ''usd'',
      external_reference = Some ''pi_i'', attempt_status = pending, retry_count = 0\<rparr>"

definition demo_ingress :: ingress_state where
  "demo_ingress =
     \<lparr>orders = demo_orders, attempts = [demo_attempt], ledger = Map.empty\<rparr>"

section \<open>The decimal text of an integer is an integer text\<close>

lemma digits_all: "list_all is_digit (digits k) \<and> digits k \<noteq> []"
proof (induction k rule: digits.induct)
  case (1 n)
  show ?case
  proof (cases "n < 10")
    case True
    then show ?thesis by (subst digits.simps, subst digits.simps) (simp add: is_digit_def)
  next
    case False
    have "n mod 10 < 10" by simp
    then have "is_digit (char_of (48 + n mod 10))"
      by (simp add: is_digit_def)
    with False 1 show ?thesis by (subst digits.simps, subst digits.simps) simp
  qed
qed

lemma digits_value_digits: "digits_value (digits k) = k"
proof (induction k rule: digits.induct)
  case (1 n)
  show ?case
  proof (cases "n < 10")
    case True
    then show ?thesis by (subst digits.simps) (simp add: digits_value_def)
  next
    case False
    have m: "n mod 10 < 10" by simp
    from False 1 have ih: "digits_value (digits (n div 10)) = n div 10" by simp
    have "digits_value (digits n) = 10 * digits_value (digits (n div 10)) + n mod 10"
      using False m by (subst digits.simps) (simp add: digits_value_def)
    with ih show ?thesis by simp
  qed
qed

lemma digits_unsigned:
  "\<exists>c cs. digits k = c # cs \<and> c \<noteq> CHR ''-'' \<and> c \<noteq> CHR ''+''"
proof -
  from digits_all [of k] obtain c cs where d: "digits k = c # cs" and a: "is_digit c"
    by (cases "digits k") auto
  from a have "c \<noteq> CHR ''-''" "c \<noteq> CHR ''+''" by (auto simp: is_digit_def)
  with d show ?thesis by blast
qed

lemma int_text_digits: "int_text (digits k)"
  using digits_unsigned [of k] digits_all [of k] by (auto simp: int_text_def)

lemma to_number_digits: "to_number (digits k) = int k"
  using digits_unsigned [of k] digits_value_digits [of k] by (auto simp: to_number_def)

text \<open>
  The text that JavaScript prints for an integer passes \<open>isInt({min: m})\<close> exactly when
  the integer is at least \<open>m\<close>.
\<close>

lemma isInt_decimal: "isInt m (decimal n) \<longleftrightarrow> m \<le> n"
proof (cases "n < 0")
  case True
  have "int_text (CHR ''-'' # digits (nat (- n)))"
    using digits_all [of "nat (- n)"] by (simp add: int_text_def)
  moreover have "to_number (CHR ''-'' # digits (nat (- n))) = n"
    using True by (simp add: to_number_def digits_value_digits)
  ultimately show ?thesis using True by (simp add: isInt_def decimal_def)
next
  case False
  then show ?thesis
    by (simp add: isInt_def decimal_def int_text_digits to_number_digits)
qed

text \<open>
  So a number passes \<open>isInt({min: m})\<close> exactly when its value is an integer, at least
  \<open>m\<close>, and of magnitude below \<open>10^21\<close>.
\<close>

lemma isInt_min_JNum:
  "isInt_min m (JNum r) \<longleftrightarrow> r \<in> \<int> \<and> of_int m \<le> r \<and> \<bar>r\<bar> < 10 ^ 21"
proof (cases "of_int \<lfloor>r\<rfloor> = r")
  case True
  then have "r \<in> \<int>" by (metis Ints_of_int)
  moreover have "m \<le> \<lfloor>r\<rfloor> \<longleftrightarrow> of_int m \<le> r" by (simp add: le_floor_iff)
  ultimately show ?thesis using True by (simp add: isInt_min_def isInt_decimal)
next
  case False
  then have "r \<notin> \<int>" by (auto elim: Ints_cases)
  with False show ?thesis by (simp add: isInt_min_def)
qed

lemma isInt_min_of_int:
  "isInt_min m (JNum (of_int n)) \<longleftrightarrow> m \<le> n \<and> \<bar>n\<bar> < 10 ^ 21"
proof -
  have "\<bar>of_int n :: rat\<bar> = of_int \<bar>n\<bar>" by simp
  then have "(\<bar>of_int n :: rat\<bar> < 10 ^ 21) = (\<bar>n\<bar> < 10 ^ 21)"
    by (simp only: of_int_less_numeral_power_cancel_iff)
  then show ?thesis by (simp add: isInt_min_JNum)
qed

lemma isInt_min_numeral:
  "isInt_min m (JNum (numeral k)) \<longleftrightarrow> m \<le> numeral k \<and> (numeral k :: int) < 10 ^ 21"
  "isInt_min m (JNum 0) \<longleftrightarrow> m \<le> 0"
  using isInt_min_of_int [of m "numeral k"] isInt_min_of_int [of m 0] by simp_all

section \<open>Evaluation lemmas\<close>

lemmas demo_defs = demo_stripe_def demo_create_def demo_retrieve_def demo_confirm_def
  demo_refund_def empty_world_def order_request_def

lemmas js_defs = json_def JSON_stringify_def field_def jstr_def template_def
  truthy_str_def truthy_def or_else_def metadata_of_def List.map_filter_def
  errors_array_def

lemmas validator_defs = create_validators_def confirm_validators_def refund_validators_def
  withMessage_def standard_validation_def optional_validation_def values_of_def
  isInt_min_numeral isIn_def notEmpty_def optional_def

lemmas world_defs = redis_get_def redis_setEx_def stripe_create_def stripe_confirm_def
  stripe_refund_def payment_intent_key_def payment_key_def refund_key_def

text \<open>The two concrete worlds, written out.\<close>

lemma created_world_eq:
  "created_world =
    \<lparr>redis = [''payment_intent:order-1'' \<mapsto>
        ([(''paymentIntentId'', JStr ''pi_i''), (''clientSecret'', JStr ''pi_i_secret''),
          (''status'', JStr ''requires_confirmation''), (''amount'', JNum 99999),
          (''currency'', JStr ''usd''), (''orderId'', JStr ''order-1''),
          (''userId'', JStr ''u1''), (''createdAt'', JTime 1000)], 4600)],
     stripe = [\<lparr>pi_id = ''pi_i'', client_secret = ''pi_i_secret'',
           pi_status = ''requires_confirmation'', pi_amount = 99999,
           pi_currency = ''usd'', created = 0,
           metadata = [(''orderId'', ''order-1''), (''userId'', ''u1'')]\<rparr>],
     calls = [CreateIntent
         \<lparr>cp_amount = JNum 99999, cp_currency = Some ''usd'',
            cp_payment_method_types = [''card''],
            cp_metadata = [(''orderId'', ''order-1''), (''userId'', ''u1'')],
            cp_description = ''Payment for order order-1'',
            cp_payment_method = Some ''pm_card''\<rparr>]\<rparr>"
  by (simp add: created_world_def create_payment_intent_def Let_def demo_defs js_defs
      validator_defs world_defs)

lemma confirmed_world_eq:
  "confirmed_world =
    \<lparr>redis = [''payment_intent:order-1'' \<mapsto>
        ([(''paymentIntentId'', JStr ''pi_i''), (''clientSecret'', JStr ''pi_i_secret''),
          (''status'', JStr ''succeeded''), (''amount'', JNum 99999),
          (''currency'', JStr ''usd''), (''orderId'', JStr ''order-1''),
          (''userId'', JStr ''u1''), (''createdAt'', JTime 1000),
          (''confirmedAt'', JTime 1010)], 4610),
        ''payment:pi_i'' \<mapsto>
        ([(''paymentIntentId'', JStr ''pi_i''), (''orderId'', JStr ''order-1''),
          (''userId'', JStr ''u1''), (''amount'', JNum 99999),
          (''currency'', JStr ''usd''), (''status'', JStr ''succeeded''),
          (''confirmedAt'', JTime 1010)], 87410)],
     stripe = [\<lparr>pi_id = ''pi_i'', client_secret = ''pi_i_secret'',
           pi_status = ''succeeded'', pi_amount = 99999,
           pi_currency = ''usd'', created = 0,
           metadata = [(''orderId'', ''order-1''), (''userId'', ''u1'')]\<rparr>],
     calls = [CreateIntent
         \<lparr>cp_amount = JNum 99999, cp_currency = Some ''usd'',
            cp_payment_method_types = [''card''],
            cp_metadata = [(''orderId'', ''order-1''), (''userId'', ''u1'')],
            cp_description = ''Payment for order order-1'',
            cp_payment_method = Some ''pm_card''\<rparr>, ConfirmIntent (Some ''pi_i'')]\<rparr>"
  by (simp add: confirmed_world_def created_world_eq confirm_payment_def Let_def demo_defs
      js_defs validator_defs world_defs)

lemma demo_retrieve_created:
  "paymentIntents_retrieve demo_stripe (Some ''pi_i'') (stripe created_world) =
     Returned (Some \<lparr>pi_id = ''pi_i'', client_secret = ''pi_i_secret'',
           pi_status = ''requires_confirmation'', pi_amount = 99999,
           pi_currency = ''usd'', created = 0,
           metadata = [(''orderId'', ''order-1''), (''userId'', ''u1'')]\<rparr>)"
  by (simp add: created_world_eq demo_stripe_def demo_retrieve_def)

lemma demo_retrieve_confirmed:
  "paymentIntents_retrieve demo_stripe (Some ''pi_i'') (stripe confirmed_world) =
     Returned (Some \<lparr>pi_id = ''pi_i'', client_secret = ''pi_i_secret'',
           pi_status = ''succeeded'', pi_amount = 99999,
           pi_currency = ''usd'', created = 0,
           metadata = [(''orderId'', ''order-1''), (''userId'', ''u1'')]\<rparr>)"
  by (simp add: confirmed_world_eq demo_stripe_def demo_retrieve_def)

lemma created_world_record:
  "redis_get 2000 (payment_intent_key (orderId order_request)) created_world =
      Some [(''paymentIntentId'', JStr ''pi_i''), (''clientSecret'', JStr ''pi_i_secret''),
          (''status'', JStr ''requires_confirmation''), (''amount'', JNum 99999),
          (''currency'', JStr ''usd''), (''orderId'', JStr ''order-1''),
          (''userId'', JStr ''u1''), (''createdAt'', JTime 1000)]"
  by (simp add: created_world_eq world_defs js_defs order_request_def)

section \<open>Create-payment-intent: the stored result is replayed\<close>

text \<open>
  Claim C1. When the cache holds an unexpired \<open>payment_intent\<close> record for the order of a
  create-payment-intent request, the handler leaves the world exactly as it was (no
  call reaches the collaborator, so no authorization is created, and nothing is
  written), whatever else the request says; and when the request passes the
  validators, which run before the lookup, the response is a 200 carrying the
  \<open>paymentIntentId\<close>, \<open>clientSecret\<close> and \<open>status\<close> of the stored record.
\<close>

theorem create_payment_intent_replays_stored_result:
  assumes "redis_get now (payment_intent_key (orderId b)) w = Some paymentData"
  shows "snd (create_payment_intent api now userId b w) = w
       \<and> (create_validators b = [] \<longrightarrow>
            fst (create_payment_intent api now userId b w) =
              json 200
                [(''success'', JBool True),
                 (''paymentIntentId'', field paymentData ''paymentIntentId''),
                 (''clientSecret'', field paymentData ''clientSecret''),
                 (''status'', field paymentData ''status'')])"
  using assms by (simp add: create_payment_intent_def Let_def)

theorem create_payment_intent_replays_stored_result_witness:
  "create_validators order_request = []
 \<and> redis_get 2000 (payment_intent_key (orderId order_request)) created_world \<noteq> None
 \<and> create_payment_intent demo_stripe 2000 ''u1'' order_request created_world =
     (\<lparr>status_code = 200,
        body = [(''success'', JBool True), (''paymentIntentId'', JStr ''pi_i''),
                (''clientSecret'', JStr ''pi_i_secret''),
                (''status'', JStr ''requires_confirmation'')]\<rparr>, created_world)"
proof -
  have valid: "create_validators order_request = []"
    by (simp add: validator_defs order_request_def)
  from create_payment_intent_replays_stored_result
         [OF created_world_record, of demo_stripe "''u1''"] valid created_world_record
  show ?thesis
    by (simp add: js_defs prod_eq_iff)
qed

section \<open>Confirm-payment on a payment that has already succeeded\<close>

text \<open>
  Claim C3. When the collaborator reports the payment intent of a confirm-payment request
  as \<open>succeeded\<close>, the handler leaves the world as it was, so no confirm call is issued;
  for the owner of the intent, with a well-formed request, the response is the 200
  "Payment already confirmed" with the existing status. The same holds for any number
  of retries: every retry gets that response and the world after the last retry is
  the world before the first.
\<close>

theorem confirm_payment_already_succeeded:
  assumes "paymentIntents_retrieve api paymentIntentId (stripe w) =
             Returned (Some paymentIntent)"
      and "pi_status paymentIntent = ''succeeded''"
  shows "snd (confirm_payment api now userId paymentIntentId w) = w
       \<and> (confirm_validators paymentIntentId = []
            \<and> map_of (metadata paymentIntent) ''userId'' = Some userId \<longrightarrow>
          fst (confirm_payment api now userId paymentIntentId w) =
            json 200 [(''success'', JBool True),
                      (''message'', JStr ''Payment already confirmed''),
                      (''status'', JStr ''succeeded'')])
       \<and> (\<forall>ts. snd (confirm_retries api userId paymentIntentId ts w) = w
            \<and> (confirm_validators paymentIntentId = []
                 \<and> map_of (metadata paymentIntent) ''userId'' = Some userId \<longrightarrow>
                fst (confirm_retries api userId paymentIntentId ts w) =
                  replicate (length ts)
                    (json 200 [(''success'', JBool True),
                               (''message'', JStr ''Payment already confirmed''),
                               (''status'', JStr ''succeeded'')])))"
proof -
  have one: "snd (confirm_payment api t userId paymentIntentId w) = w" for t
    using assms by (simp add: confirm_payment_def Let_def)
  have resp: "fst (confirm_payment api t userId paymentIntentId w) =
            json 200 [(''success'', JBool True),
                      (''message'', JStr ''Payment already confirmed''),
                      (''status'', JStr ''succeeded'')]"
    if "confirm_validators paymentIntentId = []"
       "map_of (metadata paymentIntent) ''userId'' = Some userId" for t
    using assms that by (simp add: confirm_payment_def Let_def)
  have run: "confirm_retries api userId paymentIntentId ts w =
      (map (\<lambda>t. fst (confirm_payment api t userId paymentIntentId w)) ts, w)" for ts
    by (induction ts) (simp_all add: case_prod_beta one)
  have many: "snd (confirm_retries api userId paymentIntentId ts w) = w" for ts
    by (simp add: run)
  have many_resp: "fst (confirm_retries api userId paymentIntentId ts w) =
                  replicate (length ts)
                    (json 200 [(''success'', JBool True),
                               (''message'', JStr ''Payment already confirmed''),
                               (''status'', JStr ''succeeded'')])"
    if "confirm_validators paymentIntentId = []"
       "map_of (metadata paymentIntent) ''userId'' = Some userId" for ts
    by (simp add: run resp [OF that] map_replicate_const)
  show ?thesis using one resp many many_resp by blast
qed

theorem confirm_payment_already_succeeded_witness:
  "pi_status \<lparr>pi_id = ''pi_i'', client_secret = ''pi_i_secret'',
           pi_status = ''succeeded'', pi_amount = 99999,
           pi_currency = ''usd'', created = 0,
           metadata = [(''orderId'', ''order-1''), (''userId'', ''u1'')]\<rparr> = ''succeeded''
 \<and> confirm_payment demo_stripe 1020 ''u1'' (Some ''pi_i'') confirmed_world =
     (\<lparr>status_code = 200,
        body = [(''success'', JBool True), (''message'', JStr ''Payment already confirmed''),
                (''status'', JStr ''succeeded'')]\<rparr>, confirmed_world)
 \<and> confirm_retries demo_stripe ''u1'' (Some ''pi_i'') [1020, 1030, 1040] confirmed_world =
     (replicate 3 \<lparr>status_code = 200,
        body = [(''success'', JBool True), (''message'', JStr ''Payment already confirmed''),
                (''status'', JStr ''succeeded'')]\<rparr>, confirmed_world)"
proof -
  have succeeded: "pi_status \<lparr>pi_id = ''pi_i'', client_secret = ''pi_i_secret'',
           pi_status = ''succeeded'', pi_amount = 99999,
           pi_currency = ''usd'', created = 0,
           metadata = [(''orderId'', ''order-1''), (''userId'', ''u1'')]\<rparr> = ''succeeded''"
    by simp
  have valid: "confirm_validators (Some ''pi_i'') = []"
    by (simp add: validator_defs)
  note inst = confirm_payment_already_succeeded
                [OF demo_retrieve_confirmed succeeded, of 1020 "''u1''"]
  from inst valid have single:
    "confirm_payment demo_stripe 1020 ''u1'' (Some ''pi_i'') confirmed_world =
     (\<lparr>status_code = 200,
        body = [(''success'', JBool True), (''message'', JStr ''Payment already confirmed''),
                (''status'', JStr ''succeeded'')]\<rparr>, confirmed_world)"
    by (simp add: prod_eq_iff js_defs)
  from inst have
    "snd (confirm_retries demo_stripe ''u1'' (Some ''pi_i'') [1020, 1030, 1040]
            confirmed_world) = confirmed_world
      \<and> (confirm_validators (Some ''pi_i'') = [] \<and>
          map_of (metadata \<lparr>pi_id = ''pi_i'', client_secret = ''pi_i_secret'',
           pi_status = ''succeeded'', pi_amount = 99999,
           pi_currency = ''usd'', created = 0,
           metadata = [(''orderId'', ''order-1''), (''userId'', ''u1'')]\<rparr>) ''userId''
            = Some ''u1''
          \<longrightarrow> fst (confirm_retries demo_stripe ''u1'' (Some ''pi_i'') [1020, 1030, 1040]
                    confirmed_world)
            = replicate (length [1020, 1030, 1040 :: nat])
                    (json 200 [(''success'', JBool True),
                               (''message'', JStr ''Payment already confirmed''),
                               (''status'', JStr ''succeeded'')]))"
    by blast
  with valid have retries:
    "confirm_retries demo_stripe ''u1'' (Some ''pi_i'') [1020, 1030, 1040] confirmed_world =
     (replicate 3 \<lparr>status_code = 200,
        body = [(''success'', JBool True), (''message'', JStr ''Payment already confirmed''),
                (''status'', JStr ''succeeded'')]\<rparr>, confirmed_world)"
    by (simp add: prod_eq_iff js_defs numeral_3_eq_3)
  show ?thesis using succeeded single retries by blast
qed

section \<open>Validation comes before every side effect\<close>

text \<open>
  Claim C6. A create-payment-intent, confirm-payment or refund request that fails its
  validators is answered with status 400 and the list of validation errors, and the
  world after the handler is the world before it: no call to the collaborator and no
  write to the cache.
\<close>

theorem invalid_request_rejected_without_effect:
  "(create_validators b \<noteq> [] \<longrightarrow>
      create_payment_intent api now userId b w =
        (json 400 [(''errors'', errors_array (create_validators b))], w))
 \<and> (confirm_validators pid \<noteq> [] \<longrightarrow>
      confirm_payment api now userId pid w =
        (json 400 [(''errors'', errors_array (confirm_validators pid))], w))
 \<and> (refund_validators rb \<noteq> [] \<longrightarrow>
      refund api now userId rb w =
        (json 400 [(''errors'', errors_array (refund_validators rb))], w))"
  by (simp add: create_payment_intent_def confirm_payment_def refund_def Let_def)

theorem invalid_request_rejected_without_effect_witness:
  "create_validators (order_request\<lparr>amount := JNum 49\<rparr>) \<noteq> []
 \<and> create_payment_intent demo_stripe 1000 ''u1'' (order_request\<lparr>amount := JNum 49\<rparr>)
       empty_world =
     (\<lparr>status_code = 400,
        body = [(''errors'',
                 JArr [JObj [(''msg'', JStr ''Amount must be at least 50 cents'')]])]\<rparr>,
      empty_world)
 \<and> confirm_validators (Some []) \<noteq> []
 \<and> confirm_payment demo_stripe 1000 ''u1'' (Some []) empty_world =
     (\<lparr>status_code = 400,
        body = [(''errors'',
                 JArr [JObj [(''msg'', JStr ''Payment intent ID is required'')]])]\<rparr>,
      empty_world)
 \<and> refund_validators
       \<lparr>rq_paymentIntentId = Some ''pi_i'', rq_amount = JNum 0, rq_reason = Some ''other''\<rparr>
       \<noteq> []
 \<and> refund demo_stripe 1000 ''u1''
       \<lparr>rq_paymentIntentId = Some ''pi_i'', rq_amount = JNum 0, rq_reason = Some ''other''\<rparr>
       empty_world =
     (\<lparr>status_code = 400,
        body = [(''errors'', JArr [JObj [(''msg'', JStr ''Amount must be positive'')],
                                   JObj [(''msg'', JStr ''Invalid refund reason'')]])]\<rparr>,
      empty_world)"
  using invalid_request_rejected_without_effect
      [of "order_request\<lparr>amount := JNum 49\<rparr>" demo_stripe 1000 "''u1''" empty_world
        "Some []"
        "\<lparr>rq_paymentIntentId = Some ''pi_i'', rq_amount = JNum 0,
          rq_reason = Some ''other''\<rparr>"]
  by (simp add: validator_defs js_defs order_request_def)

section \<open>Refund of a payment that has not succeeded\<close>

text \<open>
  Claim C8. When the payment intent a refund request refers to is not \<open>succeeded\<close>, the
  refund handler leaves the world as it was: no refund is created at the collaborator
  and no refund record is written. For the owner of the intent, with a well-formed
  request, the response is the 400 "Payment is not eligible for refund".
\<close>

theorem refund_not_eligible_unchanged:
  assumes "paymentIntents_retrieve api (rq_paymentIntentId b) (stripe w) =
             Returned (Some paymentIntent)"
      and "pi_status paymentIntent \<noteq> ''succeeded''"
  shows "snd (refund api now userId b w) = w
       \<and> (refund_validators b = []
            \<and> map_of (metadata paymentIntent) ''userId'' = Some userId \<longrightarrow>
          fst (refund api now userId b w) =
            \<lparr>status_code = 400,
             body = [(''error'', JStr ''Payment is not eligible for refund'')]\<rparr>)"
  using assms by (simp add: refund_def Let_def json_def JSON_stringify_def)

theorem refund_not_eligible_unchanged_witness:
  "pi_status \<lparr>pi_id = ''pi_i'', client_secret = ''pi_i_secret'',
           pi_status = ''requires_confirmation'', pi_amount = 99999,
           pi_currency = ''usd'', created = 0,
           metadata = [(''orderId'', ''order-1''), (''userId'', ''u1'')]\<rparr> \<noteq> ''succeeded''
 \<and> refund demo_stripe 1005 ''u1'' refund_request_all created_world =
     (\<lparr>status_code = 400,
        body = [(''error'', JStr ''Payment is not eligible for refund'')]\<rparr>, created_world)"
proof -
  have retrieved: "paymentIntents_retrieve demo_stripe (rq_paymentIntentId refund_request_all)
      (stripe created_world) =
     Returned (Some \<lparr>pi_id = ''pi_i'', client_secret = ''pi_i_secret'',
           pi_status = ''requires_confirmation'', pi_amount = 99999,
           pi_currency = ''usd'', created = 0,
           metadata = [(''orderId'', ''order-1''), (''userId'', ''u1'')]\<rparr>)"
    using demo_retrieve_created by (simp add: refund_request_all_def)
  have not_yet: "pi_status \<lparr>pi_id = ''pi_i'', client_secret = ''pi_i_secret'',
           pi_status = ''requires_confirmation'', pi_amount = 99999,
           pi_currency = ''usd'', created = 0,
           metadata = [(''orderId'', ''order-1''), (''userId'', ''u1'')]\<rparr> \<noteq> ''succeeded''"
    by simp
  have valid: "refund_validators refund_request_all = []"
    by (simp add: validator_defs refund_request_all_def)
  from refund_not_eligible_unchanged [OF retrieved not_yet, of 1005 "''u1''"] valid not_yet
  show ?thesis by (simp add: prod_eq_iff)
qed

section \<open>Ownership\<close>

text \<open>
  Who writes the \<open>payment\<close> records that payment-status reads: create-payment-intent
  and refund never touch them, and confirm-payment changes one only for a user who has
  passed its ownership check, and then the record carries that user's id.
\<close>

lemma field_Cons: "field ((k, v) # ob) k' = (if k = k' then v else field ob k')"
  by (simp add: field_def)

lemma create_keeps_payment_records:
  "redis (snd (create_payment_intent api now userId b w)) (payment_key k) =
   redis w (payment_key k)"
  by (auto simp: create_payment_intent_def Let_def stripe_create_def redis_setEx_def
      payment_intent_key_def payment_key_def
      split: option.splits outcome.splits prod.splits)

lemma refund_keeps_payment_records:
  "redis (snd (refund api now userId rb w)) (payment_key k) = redis w (payment_key k)"
  by (auto simp: refund_def Let_def stripe_refund_def redis_setEx_def refund_key_def
      payment_key_def split: option.splits outcome.splits prod.splits)

lemma confirm_payment_caches_for_owner:
  assumes "redis (snd (confirm_payment api now userId pid w)) (payment_key k) \<noteq>
           redis w (payment_key k)"
  shows "(\<exists>paymentIntent :: payment_intent.
           paymentIntents_retrieve api pid (stripe w) = Returned (Some paymentIntent)
         \<and> map_of (metadata paymentIntent) ''userId'' = Some userId)
       \<and> map_option (\<lambda>entry. field (fst entry) ''userId'')
           (redis (snd (confirm_payment api now userId pid w)) (payment_key k)) =
         Some (JStr userId)"
  using assms
  by (auto simp: confirm_payment_def Let_def stripe_confirm_def redis_setEx_def
      JSON_stringify_def field_Cons jstr_def payment_intent_key_def payment_key_def
      split: option.splits outcome.splits prod.splits if_splits)

text \<open>
  Claim C9. In confirm-payment and refund (for a well-formed request) and in
  payment-status, when the collaborator returns the payment intent and the \<open>userId\<close> in
  its metadata is not the authenticated user's, the response is the 403
  "Access denied", whose body carries nothing else, and the world is unchanged.
  In payment-status the cache is consulted before the collaborator: the statement is
  for a request that the cache does not answer, that is, the cache holds no
  \<open>payment\<close> record of this intent under the requesting user's id (such a record is
  written by confirm-payment alone, for the user who passed this same check).
\<close>

theorem ownership_enforced:
  "(confirm_validators cid = []
      \<and> paymentIntents_retrieve api cid (stripe w) = Returned (Some paymentIntent)
      \<and> map_of (metadata paymentIntent) ''userId'' \<noteq> Some userId \<longrightarrow>
    confirm_payment api now userId cid w =
      (\<lparr>status_code = 403, body = [(''error'', JStr ''Access denied'')]\<rparr>, w))
 \<and> (refund_validators rb = []
      \<and> paymentIntents_retrieve api (rq_paymentIntentId rb) (stripe w) =
          Returned (Some paymentIntent)
      \<and> map_of (metadata paymentIntent) ''userId'' \<noteq> Some userId \<longrightarrow>
    refund api now userId rb w =
      (\<lparr>status_code = 403, body = [(''error'', JStr ''Access denied'')]\<rparr>, w))
 \<and> ((\<forall>paymentData. redis_get now (payment_key pid) w = Some paymentData \<longrightarrow>
         field paymentData ''userId'' \<noteq> JStr userId)
      \<and> paymentIntents_retrieve api (Some pid) (stripe w) = Returned (Some paymentIntent)
      \<and> map_of (metadata paymentIntent) ''userId'' \<noteq> Some userId \<longrightarrow>
    payment_status api now userId pid w =
      (\<lparr>status_code = 403, body = [(''error'', JStr ''Access denied'')]\<rparr>, w))"
  by (auto simp: confirm_payment_def refund_def payment_status_def
      payment_status_from_stripe_def Let_def json_def JSON_stringify_def
      split: option.splits)

theorem ownership_enforced_witness:
  "confirm_payment demo_stripe 1020 ''u2'' (Some ''pi_i'') created_world =
      (\<lparr>status_code = 403, body = [(''error'', JStr ''Access denied'')]\<rparr>, created_world)
 \<and> refund demo_stripe 1020 ''u2'' refund_request_all confirmed_world =
      (\<lparr>status_code = 403, body = [(''error'', JStr ''Access denied'')]\<rparr>, confirmed_world)
 \<and> redis_get 1020 (payment_key ''pi_i'') confirmed_world \<noteq> None
 \<and> payment_status demo_stripe 1020 ''u2'' ''pi_i'' confirmed_world =
      (\<lparr>status_code = 403, body = [(''error'', JStr ''Access denied'')]\<rparr>, confirmed_world)"
proof -
  have cached: "redis_get 1020 (payment_key ''pi_i'') confirmed_world =
      Some [(''paymentIntentId'', JStr ''pi_i''), (''orderId'', JStr ''order-1''),
          (''userId'', JStr ''u1''), (''amount'', JNum 99999),
          (''currency'', JStr ''usd''), (''status'', JStr ''succeeded''),
          (''confirmedAt'', JTime 1010)]"
    by (simp add: confirmed_world_eq world_defs)
  have other: "\<forall>paymentData.
      redis_get 1020 (payment_key ''pi_i'') confirmed_world = Some paymentData
      \<longrightarrow> field paymentData ''userId'' \<noteq> JStr ''u2''"
    by (simp add: cached field_def)
  have valid: "confirm_validators (Some ''pi_i'') = []"
    "refund_validators refund_request_all = []"
    by (simp_all add: validator_defs refund_request_all_def)
  have retrieved: "paymentIntents_retrieve demo_stripe (rq_paymentIntentId refund_request_all)
      (stripe confirmed_world) =
     Returned (Some \<lparr>pi_id = ''pi_i'', client_secret = ''pi_i_secret'',
           pi_status = ''succeeded'', pi_amount = 99999,
           pi_currency = ''usd'', created = 0,
           metadata = [(''orderId'', ''order-1''), (''userId'', ''u1'')]\<rparr>)"
    using demo_retrieve_confirmed by (simp add: refund_request_all_def)
  from ownership_enforced
      [where cid = "Some ''pi_i''" and api = demo_stripe and w = created_world
        and userId = "''u2''" and now = 1020 and paymentIntent =
        "\<lparr>pi_id = ''pi_i'', client_secret = ''pi_i_secret'',
           pi_status = ''requires_confirmation'', pi_amount = 99999,
           pi_currency = ''usd'', created = 0,
           metadata = [(''orderId'', ''order-1''), (''userId'', ''u1'')]\<rparr>"]
    valid demo_retrieve_created
  have a: "confirm_payment demo_stripe 1020 ''u2'' (Some ''pi_i'') created_world =
      (\<lparr>status_code = 403, body = [(''error'', JStr ''Access denied'')]\<rparr>, created_world)"
    by simp
  from ownership_enforced
      [where rb = refund_request_all and pid = "''pi_i''" and api = demo_stripe
        and w = confirmed_world and userId = "''u2''" and now = 1020 and paymentIntent =
        "\<lparr>pi_id = ''pi_i'', client_secret = ''pi_i_secret'',
           pi_status = ''succeeded'', pi_amount = 99999,
           pi_currency = ''usd'', created = 0,
           metadata = [(''orderId'', ''order-1''), (''userId'', ''u1'')]\<rparr>"]
    valid retrieved demo_retrieve_confirmed other
  have b: "refund demo_stripe 1020 ''u2'' refund_request_all confirmed_world =
      (\<lparr>status_code = 403, body = [(''error'', JStr ''Access denied'')]\<rparr>, confirmed_world)"
    and c: "payment_status demo_stripe 1020 ''u2'' ''pi_i'' confirmed_world =
      (\<lparr>status_code = 403, body = [(''error'', JStr ''Access denied'')]\<rparr>, confirmed_world)"
    by simp_all
  show ?thesis using a b c cached by simp
qed

section \<open>The bounds of create-payment-intent\<close>






section \<open>Retention of the payment-intent record\<close>

text \<open>
  The three key spaces of the cache are disjoint, payment-status writes nothing, and
  refund writes \<open>refund\<close> records only.
\<close>

lemma key_spaces_disjoint:
  "refund_key r \<noteq> payment_intent_key k"
  "payment_key p \<noteq> payment_intent_key k"
  "payment_intent_key k \<noteq> refund_key r"
  "payment_intent_key k \<noteq> payment_key p"
  by (simp_all add: refund_key_def payment_key_def payment_intent_key_def)

lemma payment_status_writes_nothing:
  "snd (payment_status api now userId pid w) = w"
  by (simp add: payment_status_def payment_status_from_stripe_def
      split: option.splits outcome.splits)

lemma refund_keeps_payment_intent_records:
  "redis (snd (refund api now userId rb w)) (payment_intent_key k) =
   redis w (payment_intent_key k)"
  by (simp add: refund_def Let_def stripe_refund_def redis_setEx_def key_spaces_disjoint
      split: option.splits outcome.splits prod.splits)

text \<open>
  Confirm-payment is the one handler that rewrites a \<open>payment_intent\<close> record: when
  it changes the entry under an order's key, an unexpired record was there, and the new
  entry is that record with the status \<open>succeeded\<close> and \<open>confirmedAt\<close> set, expiring
  3600 seconds after the confirmation.
\<close>

lemma confirm_payment_rewrites_record:
  assumes "redis (snd (confirm_payment api now userId pid w)) (payment_intent_key k) \<noteq>
           redis w (payment_intent_key k)"
  shows "\<exists>paymentData.
           redis_get now (payment_intent_key k) w = Some paymentData
         \<and> redis (snd (confirm_payment api now userId pid w)) (payment_intent_key k) =
             Some (JSON_stringify
                     (AList.update ''confirmedAt'' (JTime now)
                        (AList.update ''status'' (JStr ''succeeded'') paymentData)),
                   now + 3600)"
  using assms
  by (auto simp: confirm_payment_def Let_def stripe_confirm_def redis_setEx_def redis_get_def
      key_spaces_disjoint split: option.splits outcome.splits prod.splits if_splits)

text \<open>
  What a first execution leaves behind: a create-payment-intent that finds no record
  and answers 200 has created an intent, answers with its id, secret and status, and
  has stored them under the order's key with an expiry 3600 seconds ahead.
\<close>

lemma create_first_execution:
  assumes run: "create_payment_intent api t0 userId b w = (r1, w1)"
      and fresh: "redis_get t0 (payment_intent_key (orderId b)) w = None"
      and ok: "status_code r1 = 200"
  shows "\<exists>paymentIntent :: payment_intent.
           r1 = json 200 [(''success'', JBool True),
                          (''paymentIntentId'', JStr (pi_id paymentIntent)),
                          (''clientSecret'', JStr (client_secret paymentIntent)),
                          (''status'', JStr (pi_status paymentIntent))]
         \<and> redis w1 (payment_intent_key (orderId b)) =
             Some (JSON_stringify
                     [(''paymentIntentId'', JStr (pi_id paymentIntent)),
                      (''clientSecret'', JStr (client_secret paymentIntent)),
                      (''status'', JStr (pi_status paymentIntent)),
                      (''amount'', amount b),
                      (''currency'', jstr (currency b)),
                      (''orderId'', jstr (orderId b)),
                      (''userId'', JStr userId),
                      (''createdAt'', JTime t0)], t0 + 3600)"
proof -
  have valid: "create_validators b = []"
  proof (rule ccontr)
    assume "create_validators b \<noteq> []"
    then have "create_payment_intent api t0 userId b w =
        (json 400 [(''errors'', errors_array (create_validators b))], w)"
      by (simp add: create_payment_intent_def Let_def)
    with run ok show False by (auto simp: json_def)
  qed
  define params where "params =
    \<lparr>cp_amount = amount b,
     cp_currency = currency b,
     cp_payment_method_types = [''card''],
     cp_metadata = metadata_of [(''orderId'', orderId b), (''userId'', Some userId)],
     cp_description =
       or_else (description b) (''Payment for order '' @ template (orderId b)),
     cp_payment_method =
       (if truthy_str (paymentMethodId b) then paymentMethodId b else None)\<rparr>"
  obtain out w' where call: "stripe_create api params w = (out, w')"
    by (cases "stripe_create api params w")
  show ?thesis
  proof (cases out)
    case Threw
    with run valid fresh call
    have "r1 = json 500 [(''error'', JStr ''Failed to create payment intent'')]"
      unfolding create_payment_intent_def Let_def params_def [symmetric] by simp
    with ok show ?thesis by (simp add: json_def)
  next
    case (Returned paymentIntent)
    with run valid fresh call have
      "r1 = json 200 [(''success'', JBool True),
                          (''paymentIntentId'', JStr (pi_id paymentIntent)),
                          (''clientSecret'', JStr (client_secret paymentIntent)),
                          (''status'', JStr (pi_status paymentIntent))]"
      and "w1 = redis_setEx t0 (payment_intent_key (orderId b)) 3600
                     [(''paymentIntentId'', JStr (pi_id paymentIntent)),
                      (''clientSecret'', JStr (client_secret paymentIntent)),
                      (''status'', JStr (pi_status paymentIntent)),
                      (''amount'', amount b),
                      (''currency'', jstr (currency b)),
                      (''orderId'', jstr (orderId b)),
                      (''userId'', JStr userId),
                      (''createdAt'', JTime t0)] w'"
      unfolding create_payment_intent_def Let_def params_def [symmetric] by simp_all
    then show ?thesis by (auto simp: redis_setEx_def)
  qed
qed

lemma demo_first_run:
  "create_payment_intent demo_stripe 1000 ''u1'' order_request empty_world =
     (\<lparr>status_code = 200,
        body = [(''success'', JBool True), (''paymentIntentId'', JStr ''pi_i''),
                (''clientSecret'', JStr ''pi_i_secret''),
                (''status'', JStr ''requires_confirmation'')]\<rparr>, created_world)"
proof -
  have "fst (create_payment_intent demo_stripe 1000 ''u1'' order_request empty_world) =
     \<lparr>status_code = 200,
        body = [(''success'', JBool True), (''paymentIntentId'', JStr ''pi_i''),
                (''clientSecret'', JStr ''pi_i_secret''),
                (''status'', JStr ''requires_confirmation'')]\<rparr>"
    by (simp add: create_payment_intent_def Let_def demo_defs js_defs validator_defs
        world_defs)
  then show ?thesis by (simp add: created_world_def prod_eq_iff)
qed

text \<open>
  Create-payment-intent never changes an entry that has not expired: under its own key
  it finds the record and returns, and it writes under no other key.
\<close>

lemma create_keeps_unexpired:
  "redis_get t K w \<noteq> None \<Longrightarrow>
   redis (snd (create_payment_intent api t userId b w)) K = redis w K"
  by (auto simp: create_payment_intent_def Let_def stripe_create_def redis_setEx_def
      redis_get_def split: option.splits outcome.splits prod.splits if_splits)

text \<open>
  Claim C2, as the code has it. The record that create-payment-intent writes at a first
  execution is kept for 3600 seconds, not for a day. Until then every
  create-payment-intent for the same order that passes the validators, in any world
  whose entry under the order's key is still the one written, is answered with the
  response of the first execution and changes nothing; at second 3600 the record is
  gone. Create-payment-intent never rewrites an unexpired entry, payment-status writes
  nothing and refund leaves every \<open>payment_intent\<close> entry as it is. The record is
  not immutable: confirm-payment rewrites it, and when it does, the new entry is the
  unexpired record with the status \<open>succeeded\<close> and \<open>confirmedAt\<close> set, kept for 3600
  seconds from the confirmation.
\<close>

theorem payment_intent_record_retention:
  assumes "create_payment_intent api t0 userId b w = (r1, w1)"
      and "redis_get t0 (payment_intent_key (orderId b)) w = None"
      and "status_code r1 = 200"
  shows "(\<forall>t (api' :: 't stripe_api) userId' b' (w' :: 't world).
            t < t0 + 3600
          \<and> redis w' (payment_intent_key (orderId b)) =
              redis w1 (payment_intent_key (orderId b))
          \<and> orderId b' = orderId b \<and> create_validators b' = [] \<longrightarrow>
            create_payment_intent api' t userId' b' w' = (r1, w'))
       \<and> redis_get (t0 + 3600) (payment_intent_key (orderId b)) w1 = None
       \<and> (\<forall>t (api' :: 't stripe_api) userId' b' (w' :: 't world) k.
            redis_get t k w' \<noteq> None \<longrightarrow>
            redis (snd (create_payment_intent api' t userId' b' w')) k = redis w' k)
       \<and> (\<forall>t (api' :: 't stripe_api) userId' pid (w' :: 't world). snd (payment_status api' t userId' pid w') = w')
       \<and> (\<forall>t (api' :: 't stripe_api) userId' rb (w' :: 't world) k.
            redis (snd (refund api' t userId' rb w')) (payment_intent_key k) =
            redis w' (payment_intent_key k))
       \<and> (\<forall>t (api' :: 't stripe_api) userId' pid (w' :: 't world) k.
            redis (snd (confirm_payment api' t userId' pid w')) (payment_intent_key k) \<noteq>
            redis w' (payment_intent_key k) \<longrightarrow>
            (\<exists>paymentData.
               redis_get t (payment_intent_key k) w' = Some paymentData
             \<and> redis (snd (confirm_payment api' t userId' pid w')) (payment_intent_key k) =
                 Some (JSON_stringify
                         (AList.update ''confirmedAt'' (JTime t)
                            (AList.update ''status'' (JStr ''succeeded'') paymentData)),
                       t + 3600)))"
proof -
  from create_first_execution [OF assms] obtain paymentIntent :: payment_intent where
    r1: "r1 = json 200 [(''success'', JBool True),
                          (''paymentIntentId'', JStr (pi_id paymentIntent)),
                          (''clientSecret'', JStr (client_secret paymentIntent)),
                          (''status'', JStr (pi_status paymentIntent))]"
    and rec: "redis w1 (payment_intent_key (orderId b)) =
             Some (JSON_stringify
                     [(''paymentIntentId'', JStr (pi_id paymentIntent)),
                      (''clientSecret'', JStr (client_secret paymentIntent)),
                      (''status'', JStr (pi_status paymentIntent)),
                      (''amount'', amount b),
                      (''currency'', jstr (currency b)),
                      (''orderId'', jstr (orderId b)),
                      (''userId'', JStr userId),
                      (''createdAt'', JTime t0)], t0 + 3600)"
    by blast
  have replay: "create_payment_intent api' t userId' b' w' = (r1, w')"
    if "t < t0 + 3600"
       "redis w' (payment_intent_key (orderId b)) = redis w1 (payment_intent_key (orderId b))"
       "orderId b' = orderId b" "create_validators b' = []"
    for t api' userId' b' w'
    using that rec r1
    by (simp add: create_payment_intent_def Let_def redis_get_def field_def
        JSON_stringify_def)
  have expired: "redis_get (t0 + 3600) (payment_intent_key (orderId b)) w1 = None"
    using rec by (simp add: redis_get_def)
  show ?thesis
  proof (intro conjI allI impI)
    fix t and api' :: "'t stripe_api" and userId' b' and w' :: "'t world"
    assume "t < t0 + 3600
          \<and> redis w' (payment_intent_key (orderId b)) =
              redis w1 (payment_intent_key (orderId b))
          \<and> orderId b' = orderId b \<and> create_validators b' = []"
    then show "create_payment_intent api' t userId' b' w' = (r1, w')"
      using replay by blast
  next
    show "redis_get (t0 + 3600) (payment_intent_key (orderId b)) w1 = None"
      by (rule expired)
  next
    fix t and api' :: "'t stripe_api" and userId' b' and w' :: "'t world" and k
    assume "redis_get t k w' \<noteq> None"
    then show "redis (snd (create_payment_intent api' t userId' b' w')) k = redis w' k"
      by (rule create_keeps_unexpired)
  next
    fix t and api' :: "'t stripe_api" and userId' pid and w' :: "'t world"
    show "snd (payment_status api' t userId' pid w') = w'"
      by (rule payment_status_writes_nothing)
  next
    fix t and api' :: "'t stripe_api" and userId' rb and w' :: "'t world" and k
    show "redis (snd (refund api' t userId' rb w')) (payment_intent_key k) =
            redis w' (payment_intent_key k)"
      by (rule refund_keeps_payment_intent_records)
  next
    fix t and api' :: "'t stripe_api" and userId' pid and w' :: "'t world" and k
    assume "redis (snd (confirm_payment api' t userId' pid w')) (payment_intent_key k) \<noteq>
            redis w' (payment_intent_key k)"
    then show "\<exists>paymentData.
               redis_get t (payment_intent_key k) w' = Some paymentData
             \<and> redis (snd (confirm_payment api' t userId' pid w')) (payment_intent_key k) =
                 Some (JSON_stringify
                         (AList.update ''confirmedAt'' (JTime t)
                            (AList.update ''status'' (JStr ''succeeded'') paymentData)),
                       t + 3600)"
      by (rule confirm_payment_rewrites_record)
  qed
qed

theorem payment_intent_record_retention_witness:
  "redis_get 1000 (payment_intent_key (orderId order_request)) empty_world = None
 \<and> create_payment_intent demo_stripe 4599 ''u1'' (order_request\<lparr>amount := JNum 50\<rparr>)
       created_world =
     (\<lparr>status_code = 200,
        body = [(''success'', JBool True), (''paymentIntentId'', JStr ''pi_i''),
                (''clientSecret'', JStr ''pi_i_secret''),
                (''status'', JStr ''requires_confirmation'')]\<rparr>, created_world)
 \<and> redis_get 4600 (payment_intent_key (orderId order_request)) created_world = None"
proof -
  have fresh: "redis_get 1000 (payment_intent_key (orderId order_request)) empty_world = None"
    by (simp add: redis_get_def empty_world_def)
  have ok: "status_code \<lparr>status_code = 200,
        body = [(''success'', JBool True), (''paymentIntentId'', JStr ''pi_i''),
                (''clientSecret'', JStr ''pi_i_secret''),
                (''status'', JStr ''requires_confirmation'')]\<rparr> = 200"
    by simp
  have valid: "create_validators (order_request\<lparr>amount := JNum 50\<rparr>) = []"
    by (simp add: validator_defs order_request_def)
  note inst = payment_intent_record_retention
      [where ?'t = "payment_intent list", OF demo_first_run fresh ok]
  note replay = inst [THEN conjunct1, rule_format]
  from replay [where t = 4599 and w' = created_world and api' = demo_stripe
      and userId' = "''u1''" and b' = "order_request\<lparr>amount := JNum 50\<rparr>"] valid
  have replayed:
    "create_payment_intent demo_stripe 4599 ''u1'' (order_request\<lparr>amount := JNum 50\<rparr>)
       created_world =
     (\<lparr>status_code = 200,
        body = [(''success'', JBool True), (''paymentIntentId'', JStr ''pi_i''),
                (''clientSecret'', JStr ''pi_i_secret''),
                (''status'', JStr ''requires_confirmation'')]\<rparr>, created_world)"
    by simp
  from inst [THEN conjunct2, THEN conjunct1]
  have gone:
    "redis_get 4600 (payment_intent_key (orderId order_request)) created_world = None"
    by simp
  show ?thesis using fresh replayed gone by simp
qed

text \<open>
  Claim C2 as stated fails on the code. The record of \<open>order-1\<close>, written at second 1000,
  is gone at second 4600, one hour later and long before a day has passed: the same
  request then creates a second payment intent (\<open>pi_ii\<close>) at the collaborator. And the
  record is not immutable while it lasts: confirm-payment at second 1010 has replaced
  its status and added \<open>confirmedAt\<close>.
\<close>

theorem payment_intent_record_retention_counterexample:
  "redis_get 4600 (payment_intent_key (orderId order_request)) created_world = None
 \<and> fst (create_payment_intent demo_stripe 4600 ''u1'' order_request created_world) =
     \<lparr>status_code = 200,
      body = [(''success'', JBool True), (''paymentIntentId'', JStr ''pi_ii''),
              (''clientSecret'', JStr ''pi_ii_secret''),
              (''status'', JStr ''requires_confirmation'')]\<rparr>
 \<and> length (calls (snd (create_payment_intent demo_stripe 4600 ''u1'' order_request
       created_world))) = 2
 \<and> redis_get 1020 (payment_intent_key (orderId order_request)) created_world =
     Some [(''paymentIntentId'', JStr ''pi_i''), (''clientSecret'', JStr ''pi_i_secret''),
           (''status'', JStr ''requires_confirmation''), (''amount'', JNum 99999),
           (''currency'', JStr ''usd''), (''orderId'', JStr ''order-1''),
           (''userId'', JStr ''u1''), (''createdAt'', JTime 1000)]
 \<and> redis_get 1020 (payment_intent_key (orderId order_request)) confirmed_world =
     Some [(''paymentIntentId'', JStr ''pi_i''), (''clientSecret'', JStr ''pi_i_secret''),
           (''status'', JStr ''succeeded''), (''amount'', JNum 99999),
           (''currency'', JStr ''usd''), (''orderId'', JStr ''order-1''),
           (''userId'', JStr ''u1''), (''createdAt'', JTime 1000),
           (''confirmedAt'', JTime 1010)]"
  by (simp add: created_world_eq confirmed_world_eq create_payment_intent_def Let_def
      demo_defs js_defs validator_defs world_defs)

section \<open>The contract of transition\<close>

lemmas order_defs = demo_order_def demo_orders_def

text \<open>
  Claim C7, as the model has it. For an order in the store, \<open>transition\<close> fails with
  \<open>ConflictError\<close> exactly when the persisted version differs from \<open>expectedVersion\<close>;
  it fails with \<open>IllegalTransitionError\<close> exactly when the version matches and the
  event is not valid from the current status; a failed call leaves the store as it
  was; and when the version matches and the event is valid, the new status is
  persisted, the version is incremented by one, and the updated order is returned with
  the domain event.
\<close>

theorem transition_contract:
  assumes "db oid = Some ord"
  shows "(fst (transition db oid event expectedVersion) = Inl ConflictError
            \<longleftrightarrow> version ord \<noteq> expectedVersion)
       \<and> (fst (transition db oid event expectedVersion) = Inl IllegalTransitionError
            \<longleftrightarrow> version ord = expectedVersion \<and> next_status (status ord) event = None)
       \<and> (\<forall>e. fst (transition db oid event expectedVersion) = Inl e \<longrightarrow>
            snd (transition db oid event expectedVersion) = db)
       \<and> (\<forall>st. version ord = expectedVersion \<and> next_status (status ord) event = Some st \<longrightarrow>
            transition db oid event expectedVersion =
              (Inr (ord\<lparr>status := st, version := version ord + 1\<rparr>,
                    \<lparr>ev_order = oid, ev_from = status ord, ev_to = st,
                     ev_version = version ord + 1\<rparr>),
               db(oid \<mapsto> ord\<lparr>status := st, version := version ord + 1\<rparr>)))"
  using assms by (auto simp: transition_def Let_def split: option.splits)

theorem transition_contract_witness:
  "transition demo_orders ''order-1'' Authorized 2 =
     (Inr (demo_order\<lparr>status := AUTHORIZED, version := 3\<rparr>,
           \<lparr>ev_order = ''order-1'', ev_from = AUTHORIZING, ev_to = AUTHORIZED,
            ev_version = 3\<rparr>),
      demo_orders(''order-1'' \<mapsto> demo_order\<lparr>status := AUTHORIZED, version := 3\<rparr>))
 \<and> transition demo_orders ''order-1'' Authorized 1 = (Inl ConflictError, demo_orders)
 \<and> transition demo_orders ''order-1'' Reserve 2 = (Inl IllegalTransitionError, demo_orders)"
proof -
  have found: "demo_orders ''order-1'' = Some demo_order"
    by (simp add: demo_orders_def)
  have facts: "version demo_order = 2" "status demo_order = AUTHORIZING"
    by (simp_all add: demo_order_def)
  from transition_contract
      [where db = demo_orders and oid = "''order-1''" and ord = demo_order
        and event = Authorized and expectedVersion = 2] found facts
  have a: "transition demo_orders ''order-1'' Authorized 2 =
     (Inr (demo_order\<lparr>status := AUTHORIZED, version := 3\<rparr>,
           \<lparr>ev_order = ''order-1'', ev_from = AUTHORIZING, ev_to = AUTHORIZED,
            ev_version = 3\<rparr>),
      demo_orders(''order-1'' \<mapsto> demo_order\<lparr>status := AUTHORIZED, version := 3\<rparr>))"
    by simp
  from transition_contract
      [where db = demo_orders and oid = "''order-1''" and ord = demo_order
        and event = Authorized and expectedVersion = 1] found facts
  have b: "transition demo_orders ''order-1'' Authorized 1 = (Inl ConflictError, demo_orders)"
    by (simp add: prod_eq_iff)
  from transition_contract
      [where db = demo_orders and oid = "''order-1''" and ord = demo_order
        and event = Reserve and expectedVersion = 2] found facts
  have c: "transition demo_orders ''order-1'' Reserve 2 =
      (Inl IllegalTransitionError, demo_orders)"
    by (simp add: prod_eq_iff)
  show ?thesis using a b c by simp
qed

text \<open>
  Claim C7 as stated fails: \<open>Complete\<close> is not valid from \<open>AUTHORIZING\<close>, yet a call
  that also carries a stale \<open>expectedVersion\<close> fails with \<open>ConflictError\<close>, not with
  \<open>IllegalTransitionError\<close>. A call has one outcome, so the two "exactly when" of the
  claim cannot both hold where both conditions do.
\<close>

theorem transition_contract_counterexample:
  "next_status (status demo_order) Complete = None
 \<and> version demo_order \<noteq> 0
 \<and> transition demo_orders ''order-1'' Complete 0 = (Inl ConflictError, demo_orders)
 \<and> fst (transition demo_orders ''order-1'' Complete 0) \<noteq> Inl IllegalTransitionError"
  by (simp add: transition_def order_defs)

section \<open>Terminal states\<close>







section \<open>Webhook replay\<close>

lemma handleEvent_records:
  "handleEvent st r t p e = (Applied, st') \<Longrightarrow> ledger st' e \<noteq> None"
  by (auto simp: handleEvent_def split: option.splits if_splits sum.splits)

lemma handleEvent_recorded_noop:
  "ledger st e \<noteq> None \<Longrightarrow> snd (handleEvent st r t p e) = st"
  by (auto simp: handleEvent_def split: option.splits)

lemma handleEvent_recorded_outcome:
  "ledger st e \<noteq> None \<Longrightarrow>
     fst (handleEvent st r t p e) = AlreadyApplied
   \<or> fst (handleEvent st r t p e) = UnknownAttemptError"
  by (auto simp: handleEvent_def split: option.splits)

lemma handleEvent_keeps_ledger:
  "ledger st k \<noteq> None \<Longrightarrow> ledger (snd (handleEvent st r t p e)) k \<noteq> None"
  by (auto simp: handleEvent_def split: option.splits sum.splits)

lemma deliver_all_keeps_ledger:
  "ledger st k \<noteq> None \<Longrightarrow> ledger (deliver_all st ds) k \<noteq> None"
  by (induction st ds rule: deliver_all.induct) (simp_all add: handleEvent_keeps_ledger)

text \<open>Delivering the same event twice in a row is the same as delivering it once.\<close>

lemma handleEvent_idempotent:
  "snd (handleEvent (snd (handleEvent st r t p e)) r t p e) = snd (handleEvent st r t p e)"
proof (cases "fst (handleEvent st r t p e) = Applied")
  case True
  then have "handleEvent st r t p e = (Applied, snd (handleEvent st r t p e))"
    by (simp add: prod_eq_iff)
  from handleEvent_records [OF this] show ?thesis
    by (rule handleEvent_recorded_noop)
next
  case False
  then have "snd (handleEvent st r t p e) = st"
    by (auto simp: handleEvent_def split: option.splits sum.splits)
  then show ?thesis by simp
qed

text \<open>
  Claim C4. Once a delivery with some \<open>eventId\<close> has been applied, replaying it any number
  of times leaves the whole state (orders, attempts and ledger) as the first
  application left it; and after any run of further deliveries, a delivery that
  carries the same \<open>eventId\<close> again changes nothing and is not reported as applied.
\<close>

theorem handleEvent_replay_is_noop:
  assumes "handleEvent st externalReference eventType payload eventId = (Applied, st')"
  shows "(\<forall>n. ((\<lambda>s. snd (handleEvent s externalReference eventType payload eventId)) ^^ n)
               st' = st')
       \<and> (\<forall>ds r t p.
             snd (handleEvent (deliver_all st' ds) r t p eventId) = deliver_all st' ds
           \<and> fst (handleEvent (deliver_all st' ds) r t p eventId) \<noteq> Applied)"
proof -
  have recorded: "ledger st' eventId \<noteq> None"
    using assms by (rule handleEvent_records)
  have again:
    "((\<lambda>s. snd (handleEvent s externalReference eventType payload eventId)) ^^ n) st' = st'"
    for n
    by (induction n) (simp_all add: handleEvent_recorded_noop [OF recorded])
  have later: "snd (handleEvent (deliver_all st' ds) r t p eventId) = deliver_all st' ds
           \<and> fst (handleEvent (deliver_all st' ds) r t p eventId) \<noteq> Applied" for ds r t p
    using handleEvent_recorded_noop [OF deliver_all_keeps_ledger [OF recorded]]
      handleEvent_recorded_outcome [OF deliver_all_keeps_ledger [OF recorded], of ds r t p]
    by auto
  show ?thesis using again later by blast
qed

lemma demo_delivery:
  "handleEvent demo_ingress ''pi_i'' authorized ''{}'' ''evt_1'' =
     (Applied,
      \<lparr>orders = demo_orders(''order-1'' \<mapsto> demo_order\<lparr>status := COMPLETED, version := 4\<rparr>),
       attempts = [demo_attempt\<lparr>attempt_status := authorized\<rparr>],
       ledger = [''evt_1'' \<mapsto> authorized]\<rparr>)"
  by (simp add: handleEvent_def events_of_def transition_def attempt_terminal_def Let_def
      order_defs demo_attempt_def demo_ingress_def)

theorem handleEvent_replay_is_noop_witness:
  "fst (handleEvent demo_ingress ''pi_i'' authorized ''{}'' ''evt_1'') = Applied
 \<and> ((\<lambda>s. snd (handleEvent s ''pi_i'' authorized ''{}'' ''evt_1'')) ^^ 3)
       (snd (handleEvent demo_ingress ''pi_i'' authorized ''{}'' ''evt_1'')) =
     snd (handleEvent demo_ingress ''pi_i'' authorized ''{}'' ''evt_1'')
 \<and> snd (handleEvent
          (deliver_all (snd (handleEvent demo_ingress ''pi_i'' authorized ''{}'' ''evt_1''))
             [(''pi_i'', declined, ''{}'', ''evt_2'')])
          ''pi_i'' authorized ''{}'' ''evt_1'') =
     deliver_all (snd (handleEvent demo_ingress ''pi_i'' authorized ''{}'' ''evt_1''))
       [(''pi_i'', declined, ''{}'', ''evt_2'')]
 \<and> orders (snd (handleEvent demo_ingress ''pi_i'' authorized ''{}'' ''evt_1'')) ''order-1'' =
     Some (demo_order\<lparr>status := COMPLETED, version := 4\<rparr>)"
proof -
  let ?st = "\<lparr>orders =
        demo_orders(''order-1'' \<mapsto> demo_order\<lparr>status := COMPLETED, version := 4\<rparr>),
      attempts = [demo_attempt\<lparr>attempt_status := authorized\<rparr>],
      ledger = [''evt_1'' \<mapsto> authorized]\<rparr>"
  note inst = handleEvent_replay_is_noop [OF demo_delivery]
  from inst
  have thrice: "((\<lambda>s. snd (handleEvent s ''pi_i'' authorized ''{}'' ''evt_1'')) ^^ 3) ?st = ?st"
    by blast
  from inst
  have after: "snd (handleEvent (deliver_all ?st [(''pi_i'', declined, ''{}'', ''evt_2'')])
          ''pi_i'' authorized ''{}'' ''evt_1'') =
        deliver_all ?st [(''pi_i'', declined, ''{}'', ''evt_2'')]"
    by blast
  show ?thesis
    unfolding demo_delivery using thrice after by (simp add: demo_orders_def)
qed

end
